theory Spec2Isabelle
  imports Main
begin

section \<open>JavaScript and Node primitives used by the installer\<close>

text \<open>
  The Android SDK installer is TypeScript running on Node. Its stage bodies call a small
  number of built-ins: \<^verbatim>\<open>RegExp.test\<close> with a literal pattern, \<^verbatim>\<open>String.split\<close>,
  \<^verbatim>\<open>Array.join\<close>, \<^verbatim>\<open>parseInt(_, 10)\<close> and the \<^verbatim>\<open>path\<close> module. They are written
  out here as executable functions on \<^typ>\<open>string\<close>.
\<close>

fun starts_with :: "string \<Rightarrow> string \<Rightarrow> bool" where
  "starts_with [] s = True"
| "starts_with (p # ps) [] = False"
| "starts_with (p # ps) (c # cs) = (p = c \<and> starts_with ps cs)"

text \<open>\<^verbatim>\<open>/lit/.test(s)\<close> for a pattern that is a literal string: substring search.\<close>

fun regex_test :: "string \<Rightarrow> string \<Rightarrow> bool" where
  "regex_test lit [] = (lit = [])"
| "regex_test lit (c # cs) = (starts_with lit (c # cs) \<or> regex_test lit cs)"

text \<open>\<^verbatim>\<open>xs.join(sep)\<close>.\<close>

fun array_join :: "string \<Rightarrow> string list \<Rightarrow> string" where
  "array_join sep [] = []"
| "array_join sep [x] = x"
| "array_join sep (x # y # ys) = x @ sep @ array_join sep (y # ys)"

text \<open>
  \<^verbatim>\<open>s.split(sep)\<close> for a string separator. The accumulator holds the characters of the
  current piece, reversed. An empty separator splits into single characters.
\<close>

fun split_from :: "string \<Rightarrow> string \<Rightarrow> string \<Rightarrow> string list" where
  "split_from sep acc [] = [rev acc]"
| "split_from sep acc (c # cs) =
     (if starts_with sep (c # cs)
      then rev acc # split_from sep [] (drop (length sep - 1) cs)
      else split_from sep (c # acc) cs)"

definition js_split :: "string \<Rightarrow> string \<Rightarrow> string list" where
  "js_split s sep = (if sep = [] then map (\<lambda>c. [c]) s else split_from sep [] s)"

text \<open>
  \<^verbatim>\<open>parseInt(v, 10)\<close>: the argument is converted to a string (\<^verbatim>\<open>undefined\<close> becomes the
  text "undefined"), leading white space is skipped, a sign is read, and the longest
  prefix of decimal digits is the value; with no digit the result is NaN, here \<open>None\<close>.
  White space is the ASCII part of what JavaScript skips.
\<close>

definition js_whitespace :: "char \<Rightarrow> bool" where
  "js_whitespace c = (c \<in> set [CHR '' '', CHR 0x09, CHR 0x0A, CHR 0x0B, CHR 0x0C, CHR 0x0D])"

definition is_digit :: "char \<Rightarrow> bool" where
  "is_digit c = (48 \<le> (of_char c :: nat) \<and> (of_char c :: nat) \<le> 57)"

fun digits_value :: "nat \<Rightarrow> string \<Rightarrow> nat" where
  "digits_value acc [] = acc"
| "digits_value acc (c # cs) = digits_value (10 * acc + ((of_char c :: nat) - 48)) cs"

definition parseInt10 :: "string option \<Rightarrow> int option" where
  "parseInt10 v =
     (let s = (case v of None \<Rightarrow> ''undefined'' | Some x \<Rightarrow> x);
          t = dropWhile js_whitespace s;
          neg = (t \<noteq> [] \<and> hd t = CHR ''-'');
          u = (if t \<noteq> [] \<and> (hd t = CHR ''-'' \<or> hd t = CHR ''+'') then tl t else t);
          ds = takeWhile is_digit u
      in if ds = [] then None
         else Some ((if neg then - 1 else 1) * int (digits_value 0 ds)))"

subsection \<open>The path module\<close>

text \<open>
  The installer runs on Windows and on Darwin, and Node's \<^verbatim>\<open>path\<close> module differs between
  the two. The stage bodies take the module as a value: the three functions they call.
  \<open>path_resolve\<close> takes the process's working directory first.
\<close>

record path_module =
  path_join :: "string list \<Rightarrow> string"
  path_basename :: "string \<Rightarrow> string"
  path_resolve :: "string \<Rightarrow> string \<Rightarrow> string"

text \<open>
  The POSIX variant, which is the one in force on Darwin. \<open>normalizeArray\<close> walks the
  segments from the right, dropping \<^verbatim>\<open>.\<close>, and letting each \<^verbatim>\<open>..\<close> cancel the nearest
  segment to its left; \<open>up\<close> counts the \<^verbatim>\<open>..\<close> still to be served.
\<close>

fun split_char :: "char \<Rightarrow> string \<Rightarrow> string list" where
  "split_char d [] = [[]]"
| "split_char d (c # cs) =
     (if c = d then [] # split_char d cs
      else (case split_char d cs of
              [] \<Rightarrow> [[c]]
            | y # ys \<Rightarrow> (c # y) # ys))"

definition segments :: "string \<Rightarrow> string list" where
  "segments p = filter (\<lambda>s. s \<noteq> []) (split_char CHR ''/'' p)"

fun normalize_from_right :: "string list \<Rightarrow> string list \<times> nat" where
  "normalize_from_right [] = ([], 0)"
| "normalize_from_right (p # ps) =
     (let (kept, up) = normalize_from_right ps
      in if p = ''.'' then (kept, up)
         else if p = ''..'' then (kept, Suc up)
         else if 0 < up then (kept, up - 1)
         else (p # kept, 0))"

definition normalizeArray :: "string list \<Rightarrow> bool \<Rightarrow> string list" where
  "normalizeArray parts allowAboveRoot =
     (let (kept, up) = normalize_from_right parts
      in if allowAboveRoot then replicate up ''..'' @ kept else kept)"

definition posix_normalize :: "string \<Rightarrow> string" where
  "posix_normalize p =
     (let isAbsolute = (p \<noteq> [] \<and> hd p = CHR ''/'');
          trailingSlash = (p \<noteq> [] \<and> last p = CHR ''/'');
          q = array_join ''/'' (normalizeArray (segments p) (\<not> isAbsolute));
          q1 = (if q = [] \<and> \<not> isAbsolute then ''.'' else q);
          q2 = (if q1 \<noteq> [] \<and> trailingSlash then q1 @ ''/'' else q1)
      in (if isAbsolute then ''/'' else []) @ q2)"

definition posix_join :: "string list \<Rightarrow> string" where
  "posix_join args = posix_normalize (array_join ''/'' (filter (\<lambda>s. s \<noteq> []) args))"

definition posix_basename :: "string \<Rightarrow> string" where
  "posix_basename p =
     rev (takeWhile (\<lambda>c. c \<noteq> CHR ''/'') (dropWhile (\<lambda>c. c = CHR ''/'') (rev p)))"

definition resolve_step :: "string \<times> bool \<Rightarrow> string \<Rightarrow> string \<times> bool" where
  "resolve_step acc s =
     (case acc of (resolvedPath, resolvedAbsolute) \<Rightarrow>
        if resolvedAbsolute \<or> s = [] then (resolvedPath, resolvedAbsolute)
        else (s @ ''/'' @ resolvedPath, hd s = CHR ''/''))"

definition posix_resolve :: "string \<Rightarrow> string \<Rightarrow> string" where
  "posix_resolve cwd p =
     (case resolve_step (resolve_step ([], False) p) cwd of
        (resolvedPath, resolvedAbsolute) \<Rightarrow>
          (let q = (if resolvedAbsolute then ''/'' else [])
                   @ array_join ''/'' (normalizeArray (segments resolvedPath) (\<not> resolvedAbsolute))
           in if q = [] then ''.'' else q))"

text \<open>A list of path segments is plain when no segment is empty or holds a slash.\<close>

definition plain :: "string list \<Rightarrow> bool" where
  "plain xs = (\<forall>s\<in>set xs. s \<noteq> [] \<and> CHR ''/'' \<notin> set s)"

definition posix_path :: path_module where
  "posix_path = \<lparr> path_join = posix_join, path_basename = posix_basename,
                  path_resolve = posix_resolve \<rparr>"

section \<open>The installer's data\<close>

text \<open>
  \<open>installer_data\<close> is \<^verbatim>\<open>IInstallerData\<close>; \<open>installer\<close> holds the fields of
  \<^verbatim>\<open>InstallerBase\<close> that the stage bodies read, and the two private fields of
  \<^verbatim>\<open>AndroidSdkInstaller\<close>. A field that has not been assigned is \<open>None\<close>
  (\<^verbatim>\<open>undefined\<close>).
\<close>

record installer_data =
  installSource :: string
  sha1 :: string
  bytes :: nat

record installer =
  installerInfo :: installer_data
  softwareVersion :: string
  installDestination :: string
  installerArchive :: "string option"
  androidHomeValue :: "string option"

text \<open>
  The constructor passes its arguments to the base class, which is taken to store them
  in the fields the stage bodies read; it assigns neither private field.
\<close>

definition new_AndroidSdkInstaller :: "installer_data \<Rightarrow> string \<Rightarrow> string \<Rightarrow> installer" where
  "new_AndroidSdkInstaller info version installTo =
     \<lparr> installerInfo = info, softwareVersion = version, installDestination = installTo,
       installerArchive = None, androidHomeValue = None \<rparr>"

text \<open>
  Errors. \<open>ErrorText m\<close> is \<^verbatim>\<open>new Error(m)\<close>; \<open>NeedInstallDestination\<close> is the error
  built from the resource string of that name; \<open>TypeError\<close> is what \<^verbatim>\<open>path.join\<close>
  throws when an argument is not a string; \<open>NodeError\<close> is an error object handed over
  by Node or by a collaborator; \<open>UnsupportedPlatform\<close> belongs to the lifecycle engine.
\<close>

datatype error =
    NeedInstallDestination
  | ErrorText string
  | TypeError
  | NodeError string
  | UnsupportedPlatform

text \<open>
  What a call that returns a promise comes to: the promise is resolved, rejected, or never
  settled (\<open>Pending\<close>); or the call throws before it returns a promise.
\<close>

datatype outcome = Resolved | Rejected error | Pending | Thrown error

text \<open>
  Every call that reaches outside the process is recorded, in order. The two stdin
  effects are the calls \<^verbatim>\<open>cp.stdin.write\<close> and \<^verbatim>\<open>cp.stdin.end\<close>; \<open>Spawn\<close> carries the
  options object when one is passed (uid and gid, each the result of \<^verbatim>\<open>parseInt\<close>).
\<close>

datatype telemetry_value = TString string | TNumber int

datatype effect =
    DownloadFile string string string nat string
  | ExistsSync string
  | AdmZip "string option"
  | MkdirSyncRecursive string nat
  | ExtractAllTo "string option" string
  | ChownSyncRecursive string "int option" "int option"
  | ChownSync string "int option" "int option"
  | Exec string
  | Spawn string "string list" "(int option \<times> int option) option"
  | StdinWrite string
  | StdinEnd
  | TelemetryAdd string telemetry_value bool
  | TelemetryAddError error
  | SetEnvironmentVariableIfNeededWin32 string string
  | AddToPathIfNeededWin32 "string list"

text \<open>The events a spawned child process emits, as its listeners see them.\<close>

datatype cp_event = StdoutData string | StderrData string | ErrorEvent error | ExitEvent int

text \<open>
  The host: what \<^verbatim>\<open>os\<close>, \<^verbatim>\<open>process\<close> and the static \<^verbatim>\<open>InstallerBase.installerCache\<close>
  give. The world: what the outside answers while one stage runs.
\<close>

record host =
  os_platform :: string
  os_EOL :: string
  node_path :: path_module
  process_cwd :: string
  env_HOME :: "string option"
  env_SUDO_UID :: "string option"
  env_SUDO_GID :: "string option"
  installerCache :: string

record world =
  on_downloadFile :: "string \<Rightarrow> string \<Rightarrow> outcome"
  on_existsSync :: "string \<Rightarrow> bool"
  on_exec :: "string \<Rightarrow> error option"
  on_spawn :: "string \<Rightarrow> cp_event list"
  on_setEnvironmentVariableIfNeededWin32 :: "string \<Rightarrow> string \<Rightarrow> outcome"
  on_addToPathIfNeededWin32 :: "string list \<Rightarrow> outcome"

type_synonym result = "outcome \<times> installer \<times> effect list"

definition outcome_of :: "result \<Rightarrow> outcome" where
  "outcome_of r = fst r"

definition installer_of :: "result \<Rightarrow> installer" where
  "installer_of r = fst (snd r)"

definition effects_of :: "result \<Rightarrow> effect list" where
  "effects_of r = snd (snd r)"

text \<open>
  \<^verbatim>\<open>p.then(f)\<close>: \<open>f\<close> runs only when \<open>p\<close> is resolved, and an exception thrown inside
  \<open>f\<close> rejects the resulting promise.
\<close>

definition then_do :: "result \<Rightarrow> (installer \<Rightarrow> result) \<Rightarrow> result" where
  "then_do r f =
     (if outcome_of r = Resolved
      then (let r' = f (installer_of r)
            in ((case outcome_of r' of Thrown e \<Rightarrow> Rejected e | out \<Rightarrow> out),
                installer_of r', effects_of r @ effects_of r'))
      else r)"

text \<open>A deferred is settled once: later calls of resolve or reject change nothing.\<close>

definition settle :: "outcome \<Rightarrow> outcome \<Rightarrow> outcome" where
  "settle d v = (if d = Pending then v else d)"

section \<open>The stage bodies of AndroidSdkInstaller\<close>

definition ANDROID_HOME_NAME :: string where
  "ANDROID_HOME_NAME = ''ANDROID_HOME''"

definition androidCommand :: "host \<Rightarrow> string" where
  "androidCommand h = (if os_platform h = ''win32'' then ''android.bat'' else ''android'')"

definition ANDROID_PACKAGES :: "string list" where
  "ANDROID_PACKAGES =
     [''tools'', ''platform-tools'', ''extra-android-support'', ''extra-android-m2repository'',
      ''build-tools-19.1.0'', ''build-tools-21.1.2'', ''build-tools-22.0.1'',
      ''android-19'', ''android-21'', ''android-22'']"

subsection \<open>Download\<close>

definition downloadDefault :: "host \<Rightarrow> world \<Rightarrow> installer \<Rightarrow> result" where
  "downloadDefault h w st =
     (let archive = path_join (node_path h)
                      [installerCache h, ''androidSdk'', os_platform h, softwareVersion st,
                       path_basename (node_path h) (installSource (installerInfo st))];
          uri = installSource (installerInfo st)
      in (on_downloadFile w uri archive,
          st\<lparr>installerArchive := Some archive\<rparr>,
          [DownloadFile uri ''GET'' archive (bytes (installerInfo st)) (sha1 (installerInfo st))]))"

definition downloadWin32 :: "host \<Rightarrow> world \<Rightarrow> installer \<Rightarrow> result" where
  "downloadWin32 h w st = downloadDefault h w st"

definition downloadDarwin :: "host \<Rightarrow> world \<Rightarrow> installer \<Rightarrow> result" where
  "downloadDarwin h w st = downloadDefault h w st"

subsection \<open>Install\<close>

text \<open>
  \<open>installDefault\<close> rejects when the destination is falsy (the empty string), before it
  touches the archive. Exceptions raised inside adm-zip and wrench, and inside
  \<^verbatim>\<open>fs.existsSync\<close>, are not modelled: their calls are recorded and taken to return.
\<close>

definition installDefault :: "host \<Rightarrow> world \<Rightarrow> installer \<Rightarrow> result" where
  "installDefault h w st =
     (if installDestination st = []
      then (Rejected NeedInstallDestination, st,
            [TelemetryAdd ''error.description''
               (TString ''NeedInstallDestination on installDefault'') False])
      else (Resolved, st,
            [AdmZip (installerArchive st), ExistsSync (installDestination st)]
            @ (if \<not> on_existsSync w (installDestination st)
               then [MkdirSyncRecursive (installDestination st) 511] else [])
            @ [ExtractAllTo (installerArchive st) (installDestination st)]))"

definition installWin32 :: "host \<Rightarrow> world \<Rightarrow> installer \<Rightarrow> result" where
  "installWin32 h w st = installDefault h w st"

text \<open>
  The loop of \<open>installDarwin\<close>, \<^verbatim>\<open>pathSegments.some(...)\<close>: it returns what
  \<open>firstNonExistentDir\<close> holds afterwards, and the probes of the file system it made.
\<close>

fun some_nonexistent ::
  "path_module \<Rightarrow> (string \<Rightarrow> bool) \<Rightarrow> string \<Rightarrow> string list \<Rightarrow> string option \<times> effect list" where
  "some_nonexistent P ex pathSoFar [] = (None, [])"
| "some_nonexistent P ex pathSoFar (dir # dirs) =
     (let p = path_join P [pathSoFar, dir]
      in if \<not> ex p then (Some p, [ExistsSync p])
         else (let (found, probes) = some_nonexistent P ex p dirs
               in (found, ExistsSync p # probes)))"

definition pathSegments :: "host \<Rightarrow> installer \<Rightarrow> string list" where
  "pathSegments h st =
     js_split (path_resolve (node_path h) (process_cwd h) (installDestination st)) (os_EOL h)"

definition firstNonExistentDir :: "host \<Rightarrow> world \<Rightarrow> installer \<Rightarrow> string option" where
  "firstNonExistentDir h w st =
     fst (some_nonexistent (node_path h) (on_existsSync w) [] (pathSegments h st))"

text \<open>
  \<^verbatim>\<open>if (firstNonExistentDir)\<close> holds when the variable is defined and not the empty
  string.
\<close>

definition installDarwin :: "host \<Rightarrow> world \<Rightarrow> installer \<Rightarrow> result" where
  "installDarwin h w st =
     (let probes = snd (some_nonexistent (node_path h) (on_existsSync w) [] (pathSegments h st));
          r = then_do (installDefault h w st)
                (\<lambda>s. (Resolved, s,
                   (case firstNonExistentDir h w st of
                      None \<Rightarrow> []
                    | Some d \<Rightarrow>
                        if d \<noteq> []
                        then [ChownSyncRecursive d
                                (parseInt10 (env_SUDO_UID h)) (parseInt10 (env_SUDO_GID h))]
                        else [])))
      in (outcome_of r, installer_of r, probes @ effects_of r))"

subsection \<open>Update variables\<close>

text \<open>
  The Windows body hands over to \<^verbatim>\<open>installerUtilsWin32\<close>, whose two functions are
  collaborators: their calls are recorded and the world gives their promises.
\<close>

definition updateVariablesWin32 :: "host \<Rightarrow> world \<Rightarrow> installer \<Rightarrow> result" where
  "updateVariablesWin32 h w st =
     (let home = path_join (node_path h) [installDestination st, ''android-sdk-windows''];
          addToPathTools = path_join (node_path h) [home, ''tools''];
          addToPathPlatformTools = path_join (node_path h) [home, ''platform-tools''];
          st' = st\<lparr>androidHomeValue := Some home\<rparr>
      in then_do
           (on_setEnvironmentVariableIfNeededWin32 w ANDROID_HOME_NAME home, st',
            [SetEnvironmentVariableIfNeededWin32 ANDROID_HOME_NAME home])
           (\<lambda>s. (on_addToPathIfNeededWin32 w [addToPathTools, addToPathPlatformTools], s,
                  [AddToPathIfNeededWin32 [addToPathTools, addToPathPlatformTools]])))"

text \<open>
  The Darwin body. \<open>appendToBashProfile\<close> and \<open>updateCommand\<close> are its local variables of
  the same names, as functions of what they are built from. The character 0x22 is the
  double quote and 0x27 the single quote.
\<close>

definition appendToBashProfile :: "string \<Rightarrow> string" where
  "appendToBashProfile home =
     (let addToPathTools = ''$'' @ ANDROID_HOME_NAME @ ''/tools/'';
          addToPathPlatformTools = ''$'' @ ANDROID_HOME_NAME @ ''/platform-tools/'';
          newPath = [CHR 0x22] @ ''$PATH:'' @ addToPathTools @ '':'' @ addToPathPlatformTools
                    @ [CHR 0x22]
      in [CHR 0x0A] @ ''# Android SDK'' @ [CHR 0x0A] @ ''export ANDROID_HOME='' @ home
         @ [CHR 0x0A] @ ''export PATH='' @ newPath)"

definition updateCommand :: "string \<Rightarrow> string \<Rightarrow> string" where
  "updateCommand home bashProfilePath =
     ''echo '' @ [CHR 0x27] @ appendToBashProfile home @ [CHR 0x27] @ '' >> '' @ [CHR 0x27]
     @ bashProfilePath @ [CHR 0x27]"

text \<open>
  \<^verbatim>\<open>fs.chownSync\<close> checks its two ids before it touches the file: each must be an integer
  from -1 to 2^32 - 1. \<^verbatim>\<open>parseInt\<close> of a variable that is not set is NaN, and the call then
  throws a TypeError without changing any owner.
\<close>

definition valid_id :: "int option \<Rightarrow> bool" where
  "valid_id v = (case v of None \<Rightarrow> False | Some n \<Rightarrow> - 1 \<le> n \<and> n \<le> 4294967295)"

text \<open>
  \<^verbatim>\<open>path.join(process.env.HOME, ".bash_profile")\<close> throws a TypeError when \<^verbatim>\<open>HOME\<close> is not
  set; this happens before the field is assigned and before any command is run. In the
  callback of \<^verbatim>\<open>exec\<close>, \<^verbatim>\<open>fs.chownSync\<close> is called before \<^verbatim>\<open>deferred.resolve\<close>: when it
  throws, the exception leaves the callback, no owner has been changed, and the deferred
  is never settled.
\<close>

definition updateVariablesDarwin :: "host \<Rightarrow> world \<Rightarrow> installer \<Rightarrow> result" where
  "updateVariablesDarwin h w st =
     (let home = path_join (node_path h) [installDestination st, ''android-sdk-macosx'']
      in case env_HOME h of
           None \<Rightarrow> (Thrown TypeError, st, [])
         | Some dir \<Rightarrow>
             (let bashProfilePath = path_join (node_path h) [dir, ''.bash_profile''];
                  command = updateCommand home bashProfilePath;
                  mustChown = (\<not> on_existsSync w bashProfilePath);
                  uid = parseInt10 (env_SUDO_UID h);
                  gid = parseInt10 (env_SUDO_GID h);
                  st' = st\<lparr>androidHomeValue := Some home\<rparr>
              in case on_exec w command of
                   Some err \<Rightarrow>
                     (Rejected err, st',
                      [ExistsSync bashProfilePath, Exec command,
                       TelemetryAdd ''error.description''
                         (TString ''ErrorOnChildProcess on updateVariablesDarwin'') False,
                       TelemetryAddError err])
                 | None \<Rightarrow>
                     if mustChown
                     then (if valid_id uid \<and> valid_id gid
                           then (Resolved, st',
                                 [ExistsSync bashProfilePath, Exec command,
                                  ChownSync bashProfilePath uid gid])
                           else (Pending, st', [ExistsSync bashProfilePath, Exec command]))
                     else (Resolved, st', [ExistsSync bashProfilePath, Exec command])))"

subsection \<open>Post-install\<close>

text \<open>
  The three helpers below build a path from \<open>androidHomeValue\<close> first;
  \<^verbatim>\<open>path.join\<close> throws a TypeError when the field is still \<^verbatim>\<open>undefined\<close>.
\<close>

definition addExecutePermission :: "host \<Rightarrow> world \<Rightarrow> installer \<Rightarrow> result" where
  "addExecutePermission h w st =
     (case androidHomeValue st of
        None \<Rightarrow> (Thrown TypeError, st, [])
      | Some home \<Rightarrow>
          (let command = ''chmod a+x '' @ path_join (node_path h) [home, ''tools'', ''android'']
           in case on_exec w command of
                Some err \<Rightarrow>
                  (Rejected err, st,
                   [Exec command,
                    TelemetryAdd ''error.description''
                      (TString ''ErrorOnChildProcess on addExecutePermission'') False,
                    TelemetryAddError err])
              | None \<Rightarrow> (Resolved, st, [Exec command])))"

text \<open>
  A spawned child is followed through the events it emits. \<open>child\<close> is what the
  listeners share: the captured stderr text, the deferred, and the calls made so far.
\<close>

record child =
  errorOutput :: string
  deferred :: outcome
  calls :: "effect list"

text \<open>The listeners of \<open>killAdb\<close>: one for the error event and one for exit.\<close>

fun killAdb_on :: "child \<Rightarrow> cp_event \<Rightarrow> child" where
  "killAdb_on c (ErrorEvent err) =
     c\<lparr>calls := calls c @
          [TelemetryAdd ''error.description'' (TString ''ErrorOnKillingAdb in killAdb'') False,
           TelemetryAddError err],
       deferred := settle (deferred c) (Rejected err)\<rparr>"
| "killAdb_on c (ExitEvent code) = c\<lparr>deferred := settle (deferred c) Resolved\<rparr>"
| "killAdb_on c (StdoutData d) = c"
| "killAdb_on c (StderrData d) = c"

definition killAdb :: "host \<Rightarrow> world \<Rightarrow> installer \<Rightarrow> result" where
  "killAdb h w st =
     (case androidHomeValue st of
        None \<Rightarrow> (Thrown TypeError, st, [])
      | Some home \<Rightarrow>
          (let command = path_join (node_path h) [home, ''platform-tools'', ''adb''];
               c = foldl killAdb_on
                     \<lparr>errorOutput = [], deferred = Pending,
                      calls = [Spawn command [''kill-server''] None]\<rparr>
                     (on_spawn w command)
           in (deferred c, st, calls c)))"

text \<open>The four listeners of \<open>installAndroidPackages\<close>.\<close>

fun installAndroidPackages_on :: "host \<Rightarrow> child \<Rightarrow> cp_event \<Rightarrow> child" where
  "installAndroidPackages_on h c (StdoutData stringData) =
     (if regex_test ''[y/n]:'' stringData
      then c\<lparr>calls := calls c @ [StdinWrite (''y'' @ os_EOL h), StdinEnd]\<rparr>
      else c)"
| "installAndroidPackages_on h c (StderrData d) = c\<lparr>errorOutput := errorOutput c @ d\<rparr>"
| "installAndroidPackages_on h c (ErrorEvent err) =
     c\<lparr>calls := calls c @
          [TelemetryAdd ''error.description''
             (TString ''ErrorOnChildProcess on postInstallDefault'') False,
           TelemetryAddError err],
       deferred := settle (deferred c) (Rejected err)\<rparr>"
| "installAndroidPackages_on h c (ExitEvent code) =
     (if errorOutput c \<noteq> []
      then c\<lparr>calls := calls c @
               [TelemetryAdd ''error.description''
                  (TString ''ErrorOnExitOfChildProcess on postInstallDefault'') False,
                TelemetryAdd ''error.code'' (TNumber code) False,
                TelemetryAdd ''error.message'' (TString (errorOutput c)) True],
            deferred := settle (deferred c) (Rejected (ErrorText (errorOutput c)))\<rparr>
      else c\<lparr>deferred := settle (deferred c) Resolved\<rparr>)"

definition packagesCommand :: "host \<Rightarrow> string \<Rightarrow> string" where
  "packagesCommand h home = path_join (node_path h) [home, ''tools'', androidCommand h]"

definition packagesArgs :: "string list" where
  "packagesArgs = [''update'', ''sdk'', ''-u'', ''-a'', ''--filter'', array_join '','' ANDROID_PACKAGES]"

definition spawnOptions :: "host \<Rightarrow> (int option \<times> int option) option" where
  "spawnOptions h =
     (if os_platform h = ''darwin''
      then Some (parseInt10 (env_SUDO_UID h), parseInt10 (env_SUDO_GID h))
      else None)"

definition installAndroidPackages :: "host \<Rightarrow> world \<Rightarrow> installer \<Rightarrow> result" where
  "installAndroidPackages h w st =
     (case androidHomeValue st of
        None \<Rightarrow> (Thrown TypeError, st, [])
      | Some home \<Rightarrow>
          (let command = packagesCommand h home;
               c = foldl (installAndroidPackages_on h)
                     \<lparr>errorOutput = [], deferred = Pending,
                      calls = [Spawn command packagesArgs (spawnOptions h)]\<rparr>
                     (on_spawn w command)
           in (deferred c, st, calls c)))"

definition postInstallDefault :: "host \<Rightarrow> world \<Rightarrow> installer \<Rightarrow> result" where
  "postInstallDefault h w st = then_do (installAndroidPackages h w st) (killAdb h w)"

definition postInstallWin32 :: "host \<Rightarrow> world \<Rightarrow> installer \<Rightarrow> result" where
  "postInstallWin32 h w st = postInstallDefault h w st"

definition postInstallDarwin :: "host \<Rightarrow> world \<Rightarrow> installer \<Rightarrow> result" where
  "postInstallDarwin h w st = then_do (addExecutePermission h w st) (postInstallDefault h w)"

section \<open>The lifecycle engine\<close>

text \<open>
  Modelled from the spec: \<^verbatim>\<open>InstallerBase.run\<close>, the engine that sequences the four stages
  and dispatches each to the body of the host platform. The class \<^verbatim>\<open>InstallerBase\<close> is
  imported by the installer and is not among the source files. The spec (4.1): the stages
  run in the fixed order download, install, update-variables, post-install; a stage whose
  flag is already true is skipped; otherwise the body of the platform runs, on success the
  flag is set, on failure the pipeline stops and no later stage runs; the platform is one
  of two, and an unrecognised one is reported before any stage runs. A stage fails when
  its promise is rejected, when the body throws, and (no later stage running) when the
  promise is never settled.
\<close>

datatype stage = Download | Install | UpdateVariables | PostInstall

text \<open>
  Modelled from the spec: StepFlags (3), the record of the stages that have already
  completed; it is read and written by the engine, which is not among the source files.
\<close>

record step_flags =
  downloaded :: bool
  installed :: bool
  variablesSet :: bool
  postInstalled :: bool

fun satisfied :: "step_flags \<Rightarrow> stage \<Rightarrow> bool" where
  "satisfied f Download = downloaded f"
| "satisfied f Install = installed f"
| "satisfied f UpdateVariables = variablesSet f"
| "satisfied f PostInstall = postInstalled f"

fun mark :: "step_flags \<Rightarrow> stage \<Rightarrow> step_flags" where
  "mark f Download = f\<lparr>downloaded := True\<rparr>"
| "mark f Install = f\<lparr>installed := True\<rparr>"
| "mark f UpdateVariables = f\<lparr>variablesSet := True\<rparr>"
| "mark f PostInstall = f\<lparr>postInstalled := True\<rparr>"

text \<open>The bodies each platform supplies are the source's.\<close>

fun body_win32 :: "host \<Rightarrow> stage \<Rightarrow> world \<Rightarrow> installer \<Rightarrow> result" where
  "body_win32 h Download = downloadWin32 h"
| "body_win32 h Install = installWin32 h"
| "body_win32 h UpdateVariables = updateVariablesWin32 h"
| "body_win32 h PostInstall = postInstallWin32 h"

fun body_darwin :: "host \<Rightarrow> stage \<Rightarrow> world \<Rightarrow> installer \<Rightarrow> result" where
  "body_darwin h Download = downloadDarwin h"
| "body_darwin h Install = installDarwin h"
| "body_darwin h UpdateVariables = updateVariablesDarwin h"
| "body_darwin h PostInstall = postInstallDarwin h"

text \<open>
  Modelled from the spec: the engine's dispatch (4.1), a two-way switch on the host
  platform; for a platform that is neither of the two there is no body to run.
\<close>

definition dispatch :: "host \<Rightarrow> (stage \<Rightarrow> world \<Rightarrow> installer \<Rightarrow> result) option" where
  "dispatch h =
     (if os_platform h = ''win32'' then Some (body_win32 h)
      else if os_platform h = ''darwin'' then Some (body_darwin h)
      else None)"

text \<open>
  Modelled from the spec: one stage of the engine's run (4.1). The state of a run:
  \<open>status\<close> is \<open>Resolved\<close> while no stage has failed, \<open>this\<close> is the installer
  object, \<open>trace\<close> the effects so far. A stage does nothing once the run has failed
  or when its flag is satisfied; otherwise its body runs, and the flag is set when the
  body's promise is resolved.
\<close>

record run_state =
  status :: outcome
  flags :: step_flags
  this :: installer
  trace :: "effect list"

definition run_stage ::
  "(stage \<Rightarrow> world \<Rightarrow> installer \<Rightarrow> result) \<Rightarrow> (stage \<Rightarrow> world) \<Rightarrow> run_state \<Rightarrow> stage \<Rightarrow> run_state" where
  "run_stage body ws r s =
     (if status r \<noteq> Resolved then r
      else if satisfied (flags r) s then r
      else (let res = body s (ws s) (this r)
            in \<lparr> status = outcome_of res,
                 flags = (if outcome_of res = Resolved then mark (flags r) s else flags r),
                 this = installer_of res,
                 trace = trace r @ effects_of res \<rparr>))"

text \<open>
  Modelled from the spec: the engine's run (4.1). \<open>run_stages\<close> runs the stages of a
  list in order, after the platform has been looked up; \<open>ws\<close> gives the world each
  stage meets. \<open>run\<close> is the whole pipeline on a newly constructed installer.
\<close>

definition run_stages ::
  "host \<Rightarrow> (stage \<Rightarrow> world) \<Rightarrow> step_flags \<Rightarrow> installer \<Rightarrow> stage list \<Rightarrow> run_state" where
  "run_stages h ws f st stages =
     (case dispatch h of
        None \<Rightarrow> \<lparr> status = Rejected UnsupportedPlatform, flags = f, this = st, trace = [] \<rparr>
      | Some body \<Rightarrow>
          foldl (run_stage body ws)
            \<lparr> status = Resolved, flags = f, this = st, trace = [] \<rparr> stages)"

definition run ::
  "host \<Rightarrow> (stage \<Rightarrow> world) \<Rightarrow> step_flags \<Rightarrow> installer_data \<Rightarrow> string \<Rightarrow> string \<Rightarrow> run_state" where
  "run h ws f info version installTo =
     run_stages h ws f (new_AndroidSdkInstaller info version installTo)
       [Download, Install, UpdateVariables, PostInstall]"

section \<open>Reading a trace\<close>

fun is_exit :: "cp_event \<Rightarrow> bool" where
  "is_exit (ExitEvent code) = True"
| "is_exit e = False"

fun is_error :: "cp_event \<Rightarrow> bool" where
  "is_error (ErrorEvent err) = True"
| "is_error e = False"

text \<open>The text a child has written to stderr, and the first error event it emitted.\<close>

fun stderr_text :: "cp_event list \<Rightarrow> string" where
  "stderr_text [] = []"
| "stderr_text (StderrData d # evs) = d @ stderr_text evs"
| "stderr_text (e # evs) = stderr_text evs"

fun first_error :: "cp_event list \<Rightarrow> error option" where
  "first_error [] = None"
| "first_error (ErrorEvent err # evs) = Some err"
| "first_error (e # evs) = first_error evs"

text \<open>The number of stdout chunks that hold the prompt.\<close>

fun prompts :: "cp_event list \<Rightarrow> nat" where
  "prompts [] = 0"
| "prompts (StdoutData d # evs) =
     (if regex_test ''[y/n]:'' d then Suc (prompts evs) else prompts evs)"
| "prompts (e # evs) = prompts evs"

fun is_spawn :: "effect \<Rightarrow> bool" where
  "is_spawn (Spawn command args options) = True"
| "is_spawn e = False"

fun is_stdin :: "effect \<Rightarrow> bool" where
  "is_stdin (StdinWrite d) = True"
| "is_stdin StdinEnd = True"
| "is_stdin e = False"

fun is_exec :: "effect \<Rightarrow> bool" where
  "is_exec (Exec command) = True"
| "is_exec e = False"

fun is_chown :: "effect \<Rightarrow> bool" where
  "is_chown (ChownSync p u g) = True"
| "is_chown (ChownSyncRecursive p u g) = True"
| "is_chown e = False"


fun is_network :: "effect \<Rightarrow> bool" where
  "is_network (DownloadFile uri method dest n digest) = True"
| "is_network e = False"

text \<open>Effects that change the file system, and effects that only look at it.\<close>

fun is_fs_write :: "effect \<Rightarrow> bool" where
  "is_fs_write (MkdirSyncRecursive p m) = True"
| "is_fs_write (ExtractAllTo a p) = True"
| "is_fs_write (ChownSync p u g) = True"
| "is_fs_write (ChownSyncRecursive p u g) = True"
| "is_fs_write e = False"

fun is_fs_read :: "effect \<Rightarrow> bool" where
  "is_fs_read (ExistsSync p) = True"
| "is_fs_read (AdmZip a) = True"
| "is_fs_read e = False"

section \<open>Example hosts and worlds\<close>

definition darwin_host :: host where
  "darwin_host =
     \<lparr> os_platform = ''darwin'', os_EOL = [CHR 0x0A], node_path = posix_path,
       process_cwd = ''/Users/dev'', env_HOME = Some ''/Users/dev'',
       env_SUDO_UID = Some ''501'', env_SUDO_GID = Some ''20'',
       installerCache = ''/Users/dev/.taco_home/third-party-installers'' \<rparr>"

definition linux_host :: host where
  "linux_host = darwin_host\<lparr> os_platform := ''linux'', process_cwd := ''/home/dev'',
                             env_HOME := Some ''/home/dev'' \<rparr>"

definition sdk_info :: installer_data where
  "sdk_info = \<lparr> installSource = ''http://x/sdk.zip'', sha1 = ''abc'', bytes = 1024 \<rparr>"

text \<open>
  A world in which the download succeeds, every shell command succeeds, the Windows
  collaborators succeed, the paths in \<open>existing\<close> exist, and every spawned child
  emits \<open>events\<close>.
\<close>

definition world_of :: "string list \<Rightarrow> cp_event list \<Rightarrow> world" where
  "world_of existing events =
     \<lparr> on_downloadFile = (\<lambda>uri dest. Resolved),
       on_existsSync = (\<lambda>p. p \<in> set existing),
       on_exec = (\<lambda>command. None),
       on_spawn = (\<lambda>command. events),
       on_setEnvironmentVariableIfNeededWin32 = (\<lambda>name v. Resolved),
       on_addToPathIfNeededWin32 = (\<lambda>entries. Resolved) \<rparr>"

definition sdk_new :: installer where
  "sdk_new = new_AndroidSdkInstaller sdk_info ''24.0.2'' ''/opt/sdk''"

text \<open>An installer whose destination lies two levels below an existing directory.\<close>

definition sdk_nested :: installer where
  "sdk_nested = new_AndroidSdkInstaller sdk_info ''24.0.2'' ''/opt/android/sdk''"

text \<open>The same world, except that every shell command fails.\<close>

definition failing_exec :: "world \<Rightarrow> world" where
  "failing_exec w = w\<lparr> on_exec := (\<lambda>command. Some (NodeError ''Command failed'')) \<rparr>"

text \<open>An installer after the update-variables stage has run on Darwin.\<close>

definition sdk_installed :: installer where
  "sdk_installed =
     (new_AndroidSdkInstaller sdk_info ''24.0.2'' ''/opt/sdk'')
       \<lparr> androidHomeValue := Some ''/opt/sdk/android-sdk-macosx'' \<rparr>"

definition no_flags :: step_flags where
  "no_flags = \<lparr> downloaded = False, installed = False, variablesSet = False,
                postInstalled = False \<rparr>"

text \<open>
  Every stage meets a world in which the working directory exists, nothing else does yet,
  and each child exits with code 0.
\<close>

definition all_succeed :: "stage \<Rightarrow> world" where
  "all_succeed s = world_of [''/Users/dev''] [ExitEvent 0]"

section \<open>Lemmas\<close>

lemma starts_with_refl: "starts_with s s"
  by (induction s) auto

subsection \<open>Splitting, and the POSIX path functions\<close>

lemma regex_test_Nil: "regex_test [] s"
  by (cases s) simp_all

lemma split_from_absent: "\<not> regex_test sep s \<Longrightarrow> split_from sep acc s = [rev acc @ s]"
  by (induction s arbitrary: acc) auto

lemma js_split_absent:
  assumes "\<not> regex_test sep s"
  shows "js_split s sep = [s]"
proof -
  have "sep \<noteq> []" using assms regex_test_Nil by blast
  then show ?thesis using assms by (simp add: js_split_def split_from_absent)
qed

lemma split_char_nonempty: "split_char d p \<noteq> []"
  by (induction p) (auto split: list.splits)

lemma split_char_free: "\<forall>s\<in>set (split_char d p). d \<notin> set s"
  by (induction p) (auto split: list.splits)

lemma segments_plain: "plain (segments p)"
  using split_char_free [of "CHR ''/''" p] by (auto simp: plain_def segments_def)

lemma split_char_one: "d \<notin> set x \<Longrightarrow> split_char d x = [x]"
  by (induction x) auto

lemma split_char_append: "d \<notin> set x \<Longrightarrow> split_char d (x @ d # rest) = x # split_char d rest"
  by (induction x) auto

lemma split_char_join:
  "xs \<noteq> [] \<Longrightarrow> \<forall>s\<in>set xs. d \<notin> set s \<Longrightarrow> split_char d (array_join [d] xs) = xs"
proof (induction "[d]" xs rule: array_join.induct)
  case 1
  then show ?case by simp
next
  case (2 x)
  then show ?case by (simp add: split_char_one)
next
  case (3 x y ys)
  then show ?case by (simp add: split_char_append)
qed

lemma segments_join:
  assumes "plain xs"
  shows "segments (array_join ''/'' xs) = xs"
proof (cases xs)
  case Nil
  then show ?thesis by (simp add: segments_def)
next
  case (Cons x ys)
  then have "split_char CHR ''/'' (array_join ''/'' xs) = xs"
    using assms by (intro split_char_join) (auto simp: plain_def)
  then show ?thesis using assms by (simp add: segments_def plain_def)
qed

lemma segments_slash: "segments (CHR ''/'' # p) = segments p"
  by (simp add: segments_def)

lemma normalize_from_right_kept:
  "normalize_from_right xs = (kept, up) \<Longrightarrow>
   set kept \<subseteq> set xs \<and> ''.'' \<notin> set kept \<and> ''..'' \<notin> set kept"
proof (induction xs arbitrary: kept up)
  case Nil
  then show ?case by simp
next
  case (Cons x xs)
  obtain k u where ku: "normalize_from_right xs = (k, u)" by (cases "normalize_from_right xs")
  from Cons.IH [OF ku] Cons.prems ku show ?case
    by (auto split: if_splits)
qed

lemma normalize_from_right_plain:
  "''.'' \<notin> set xs \<Longrightarrow> ''..'' \<notin> set xs \<Longrightarrow> normalize_from_right xs = (xs, 0)"
  by (induction xs) auto

lemma normalize_from_right_dots:
  "''.'' \<notin> set xs \<Longrightarrow> ''..'' \<notin> set xs \<Longrightarrow>
   normalize_from_right (replicate n ''..'' @ xs) = (xs, n)"
  by (induction n) (auto simp: normalize_from_right_plain)

lemma normalizeArray_idem: "normalizeArray (normalizeArray xs b) b = normalizeArray xs b"
proof -
  obtain k u where ku: "normalize_from_right xs = (k, u)" by (cases "normalize_from_right xs")
  have free: "''.'' \<notin> set k" "''..'' \<notin> set k"
    using normalize_from_right_kept [OF ku] by simp_all
  show ?thesis
    using ku free
    by (simp add: normalizeArray_def normalize_from_right_plain normalize_from_right_dots)
qed

lemma normalizeArray_plain:
  assumes "plain xs"
  shows "plain (normalizeArray xs b)"
proof -
  obtain k u where ku: "normalize_from_right xs = (k, u)" by (cases "normalize_from_right xs")
  have "set k \<subseteq> set xs" using normalize_from_right_kept [OF ku] by simp
  then show ?thesis
    using assms ku by (auto simp: normalizeArray_def plain_def)
qed

lemma array_join_Nil: "\<forall>s\<in>set xs. s \<noteq> [] \<Longrightarrow> (array_join sep xs = []) = (xs = [])"
  by (induction sep xs rule: array_join.induct) auto

lemma array_join_hd: "xs \<noteq> [] \<Longrightarrow> hd xs \<noteq> [] \<Longrightarrow> hd (array_join sep xs) = hd (hd xs)"
  by (induction sep xs rule: array_join.induct) auto

lemma array_join_last:
  "xs \<noteq> [] \<Longrightarrow> \<forall>s\<in>set xs. s \<noteq> [] \<Longrightarrow> last (array_join sep xs) = last (last xs)"
  by (induction sep xs rule: array_join.induct) (auto simp: array_join_Nil)

lemma plain_join_ends:
  assumes "plain xs" and "xs \<noteq> []"
  shows "array_join ''/'' xs \<noteq> [] \<and> hd (array_join ''/'' xs) \<noteq> CHR ''/''
         \<and> last (array_join ''/'' xs) \<noteq> CHR ''/''"
proof -
  have ne: "\<forall>s\<in>set xs. s \<noteq> []" using assms(1) by (simp add: plain_def)
  have first: "hd xs \<in> set xs" and final: "last xs \<in> set xs" using assms(2) by simp_all
  have "hd (hd xs) \<in> set (hd xs)" using first ne by simp
  moreover have "CHR ''/'' \<notin> set (hd xs)" using first assms(1) by (simp add: plain_def)
  ultimately have h: "hd (hd xs) \<noteq> CHR ''/''" by metis
  have "last (last xs) \<in> set (last xs)" using final ne by simp
  moreover have "CHR ''/'' \<notin> set (last xs)" using final assms(1) by (simp add: plain_def)
  ultimately have l: "last (last xs) \<noteq> CHR ''/''" by metis
  show ?thesis
    using h l ne first assms(2) by (simp add: array_join_Nil array_join_hd array_join_last)
qed

lemma posix_normalize_dot: "posix_normalize ''.'' = ''.''"
  by code_simp

lemma posix_normalize_resolve:
  "posix_normalize (posix_resolve cwd d) = posix_resolve cwd d"
proof -
  obtain rp ab where step: "resolve_step (resolve_step ([], False) d) cwd = (rp, ab)"
    by (cases "resolve_step (resolve_step ([], False) d) cwd")
  define N where "N = normalizeArray (segments rp) (\<not> ab)"
  define J where "J = array_join ''/'' N"
  have pl: "plain N" unfolding N_def by (intro normalizeArray_plain segments_plain)
  have idem: "normalizeArray N (\<not> ab) = N" unfolding N_def by (rule normalizeArray_idem)
  have seg: "segments J = N" unfolding J_def using pl by (rule segments_join)
  have res: "posix_resolve cwd d =
             (if (if ab then ''/'' else []) @ J = [] then ''.'' else (if ab then ''/'' else []) @ J)"
    using step by (simp add: posix_resolve_def Let_def N_def J_def)
  have JN: "J = [] \<longleftrightarrow> N = []"
    unfolding J_def using pl by (intro array_join_Nil) (simp add: plain_def)
  show ?thesis
  proof (cases ab)
    case True
    then have r: "posix_resolve cwd d = CHR ''/'' # J" using res by simp
    have idem': "normalizeArray N False = N" using idem True by simp
    have "posix_normalize (CHR ''/'' # J) = CHR ''/'' # J"
    proof (cases "N = []")
      case True
      then have "J = []" using JN by simp
      then show ?thesis by (simp add: posix_normalize_dot) code_simp
    next
      case False
      then have "J \<noteq> [] \<and> last J \<noteq> CHR ''/''"
        unfolding J_def using plain_join_ends [OF pl] by simp
      then show ?thesis
        using seg idem' by (simp add: posix_normalize_def Let_def segments_slash J_def)
    qed
    then show ?thesis using r by simp
  next
    case False
    then have idem': "normalizeArray N True = N" using idem by simp
    show ?thesis
    proof (cases "N = []")
      case True
      then have "J = []" using JN by simp
      then show ?thesis using res False by (simp add: posix_normalize_dot)
    next
      case nonempty: False
      then have ends: "J \<noteq> [] \<and> hd J \<noteq> CHR ''/'' \<and> last J \<noteq> CHR ''/''"
        unfolding J_def using plain_join_ends [OF pl] by simp
      then have r: "posix_resolve cwd d = J" using res False by simp
      have "posix_normalize J = J"
        using ends seg idem' by (simp add: posix_normalize_def Let_def J_def)
      then show ?thesis using r by simp
    qed
  qed
qed

lemma posix_resolve_nonempty: "posix_resolve cwd d \<noteq> []"
  by (simp add: posix_resolve_def Let_def split: prod.splits)

lemma posix_join_resolve: "posix_join [[], posix_resolve cwd d] = posix_resolve cwd d"
  by (simp add: posix_join_def posix_resolve_nonempty posix_normalize_resolve)


subsection \<open>Promises\<close>

lemma settle_settled: "d \<noteq> Pending \<Longrightarrow> settle d v = d"
  by (simp add: settle_def)

lemma settle_Pending: "settle Pending v = v"
  by (simp add: settle_def)

lemma result_parts [simp]:
  "outcome_of (out, st, es) = out" "installer_of (out, st, es) = st" "effects_of (out, st, es) = es"
  by (simp_all add: outcome_of_def installer_of_def effects_of_def)

lemma then_do_failed: "outcome_of r \<noteq> Resolved \<Longrightarrow> then_do r f = r"
  by (simp add: then_do_def)

subsection \<open>The listeners of installAndroidPackages\<close>

lemma packages_settled:
  "deferred c \<noteq> Pending \<Longrightarrow> deferred (foldl (installAndroidPackages_on h) c evs) = deferred c"
proof (induction evs arbitrary: c)
  case Nil
  then show ?case by simp
next
  case (Cons e evs)
  then show ?case by (cases e) (simp_all add: settle_settled)
qed

lemma packages_errorOutput:
  "errorOutput (foldl (installAndroidPackages_on h) c evs) = errorOutput c @ stderr_text evs"
proof (induction evs arbitrary: c)
  case Nil
  then show ?case by simp
next
  case (Cons e evs)
  then show ?case by (cases e) simp_all
qed

lemma packages_before_exit:
  assumes "\<forall>e\<in>set evs. \<not> is_exit e" and "deferred c = Pending"
  shows "deferred (foldl (installAndroidPackages_on h) c evs) =
         (case first_error evs of None \<Rightarrow> Pending | Some err \<Rightarrow> Rejected err)"
  using assms
proof (induction evs arbitrary: c)
  case Nil
  then show ?case by simp
next
  case (Cons e evs)
  show ?case
  proof (cases e)
    case (ErrorEvent err)
    then show ?thesis using Cons.prems by (simp add: settle_Pending packages_settled)
  next
    case (ExitEvent code)
    then show ?thesis using Cons.prems by simp
  next
    case (StdoutData d)
    then show ?thesis using Cons by simp
  next
    case (StderrData d)
    then show ?thesis using Cons by simp
  qed
qed

lemma packages_at_exit:
  assumes "\<forall>e\<in>set pre. \<not> is_exit e" and "deferred c = Pending" and "errorOutput c = []"
  shows "deferred (foldl (installAndroidPackages_on h) c (pre @ ExitEvent code # post)) =
         (case first_error pre of
            Some err \<Rightarrow> Rejected err
          | None \<Rightarrow> if stderr_text pre = [] then Resolved
                    else Rejected (ErrorText (stderr_text pre)))"
proof -
  let ?c1 = "foldl (installAndroidPackages_on h) c pre"
  let ?c2 = "installAndroidPackages_on h ?c1 (ExitEvent code)"
  have d1: "deferred ?c1 = (case first_error pre of None \<Rightarrow> Pending | Some err \<Rightarrow> Rejected err)"
    using assms(1,2) by (rule packages_before_exit)
  have e1: "errorOutput ?c1 = stderr_text pre"
    using assms(3) by (simp add: packages_errorOutput)
  have d2: "deferred ?c2 =
         (case first_error pre of
            Some err \<Rightarrow> Rejected err
          | None \<Rightarrow> if stderr_text pre = [] then Resolved
                    else Rejected (ErrorText (stderr_text pre)))"
    using d1 e1 by (simp add: settle_def split: option.splits)
  have "deferred ?c2 \<noteq> Pending"
    using d2 by (simp split: option.splits)
  then have "deferred (foldl (installAndroidPackages_on h) ?c2 post) = deferred ?c2"
    by (rule packages_settled)
  then show ?thesis using d2 by simp
qed

lemma packages_spawns:
  "filter is_spawn (calls (foldl (installAndroidPackages_on h) c evs)) = filter is_spawn (calls c)"
proof (induction evs arbitrary: c)
  case Nil
  then show ?case by simp
next
  case (Cons e evs)
  then show ?case by (cases e) simp_all
qed

lemma packages_stdin:
  "filter is_stdin (calls (foldl (installAndroidPackages_on h) c evs)) =
   filter is_stdin (calls c) @ concat (replicate (prompts evs) [StdinWrite (''y'' @ os_EOL h), StdinEnd])"
proof (induction evs arbitrary: c)
  case Nil
  then show ?case by simp
next
  case (Cons e evs)
  then show ?case by (cases e) simp_all
qed

lemma packages_no_kill_description:
  assumes "TelemetryAdd ''error.description'' (TString ''ErrorOnKillingAdb in killAdb'') False
           \<notin> set (calls c)"
  shows "TelemetryAdd ''error.description'' (TString ''ErrorOnKillingAdb in killAdb'') False
         \<notin> set (calls (foldl (installAndroidPackages_on h) c evs))"
  using assms
proof (induction evs arbitrary: c)
  case Nil
  then show ?case by simp
next
  case (Cons e evs)
  then show ?case by (cases e) simp_all
qed

lemma installAndroidPackages_outcome:
  assumes "androidHomeValue st = Some home"
  shows "outcome_of (installAndroidPackages h w st) =
         deferred (foldl (installAndroidPackages_on h)
           \<lparr>errorOutput = [], deferred = Pending,
            calls = [Spawn (packagesCommand h home) packagesArgs (spawnOptions h)]\<rparr>
           (on_spawn w (packagesCommand h home)))"
  using assms by (simp add: installAndroidPackages_def Let_def)

lemma installAndroidPackages_at_exit:
  assumes "androidHomeValue st = Some home"
    and "on_spawn w (packagesCommand h home) = pre @ ExitEvent code # post"
    and "\<forall>e\<in>set pre. \<not> is_exit e"
  shows "outcome_of (installAndroidPackages h w st) =
         (case first_error pre of
            Some err \<Rightarrow> Rejected err
          | None \<Rightarrow> if stderr_text pre = [] then Resolved
                    else Rejected (ErrorText (stderr_text pre)))"
proof -
  have "outcome_of (installAndroidPackages h w st) =
         deferred (foldl (installAndroidPackages_on h)
           \<lparr>errorOutput = [], deferred = Pending,
            calls = [Spawn (packagesCommand h home) packagesArgs (spawnOptions h)]\<rparr>
           (pre @ ExitEvent code # post))"
    using installAndroidPackages_outcome [OF assms(1)] assms(2) by simp
  also have "\<dots> = (case first_error pre of
            Some err \<Rightarrow> Rejected err
          | None \<Rightarrow> if stderr_text pre = [] then Resolved
                    else Rejected (ErrorText (stderr_text pre)))"
    using assms(3) by (intro packages_at_exit) simp_all
  finally show ?thesis .
qed

subsection \<open>The listeners of killAdb\<close>

lemma killAdb_settled:
  "deferred c \<noteq> Pending \<Longrightarrow> deferred (foldl killAdb_on c evs) = deferred c"
proof (induction evs arbitrary: c)
  case Nil
  then show ?case by simp
next
  case (Cons e evs)
  then show ?case by (cases e) (simp_all add: settle_settled)
qed

lemma killAdb_quiet:
  assumes "\<forall>e\<in>set evs. \<not> is_exit e \<and> \<not> is_error e"
  shows "foldl killAdb_on c evs = c"
  using assms
proof (induction evs arbitrary: c)
  case Nil
  then show ?case by simp
next
  case (Cons e evs)
  then show ?case by (cases e) simp_all
qed

lemma killAdb_calls_grow:
  "set (calls c) \<subseteq> set (calls (foldl killAdb_on c evs))"
proof (induction evs arbitrary: c)
  case Nil
  then show ?case by simp
next
  case (Cons e evs)
  have "set (calls c) \<subseteq> set (calls (killAdb_on c e))"
    by (cases e) auto
  also have "\<dots> \<subseteq> set (calls (foldl killAdb_on (killAdb_on c e) evs))"
    by (rule Cons.IH)
  finally show ?case by simp
qed

subsection \<open>What the stage bodies do to the installer\<close>

lemma then_do_installer:
  "installer_of (then_do r f) =
     (if outcome_of r = Resolved then installer_of (f (installer_of r)) else installer_of r)"
  by (simp add: then_do_def Let_def)


lemma then_do_effects:
  "effects_of (then_do r f) =
     (if outcome_of r = Resolved then effects_of r @ effects_of (f (installer_of r))
      else effects_of r)"
  by (simp add: then_do_def Let_def)

lemma downloadDefault_installer:
  "installer_of (downloadDefault h w st) =
     st\<lparr>installerArchive := Some (path_join (node_path h)
           [installerCache h, ''androidSdk'', os_platform h, softwareVersion st,
            path_basename (node_path h) (installSource (installerInfo st))])\<rparr>"
  by (simp add: downloadDefault_def Let_def)

lemma installDefault_installer: "installer_of (installDefault h w st) = st"
  by (simp add: installDefault_def)

lemma installDarwin_installer: "installer_of (installDarwin h w st) = st"
  by (simp add: installDarwin_def Let_def then_do_installer installDefault_installer)

lemma updateVariablesWin32_installer:
  "installer_of (updateVariablesWin32 h w st) =
     st\<lparr>androidHomeValue :=
          Some (path_join (node_path h) [installDestination st, ''android-sdk-windows''])\<rparr>"
  by (simp add: updateVariablesWin32_def Let_def then_do_installer)

lemma updateVariablesDarwin_installer:
  "installer_of (updateVariablesDarwin h w st) =
     (if env_HOME h = None then st
      else st\<lparr>androidHomeValue :=
          Some (path_join (node_path h) [installDestination st, ''android-sdk-macosx''])\<rparr>)"
  by (simp add: updateVariablesDarwin_def Let_def split: option.splits)

lemma updateVariablesDarwin_thrown:
  "env_HOME h = None \<Longrightarrow> outcome_of (updateVariablesDarwin h w st) = Thrown TypeError"
  by (simp add: updateVariablesDarwin_def Let_def)

lemma addExecutePermission_installer: "installer_of (addExecutePermission h w st) = st"
  by (simp add: addExecutePermission_def Let_def split: option.splits)

lemma killAdb_installer: "installer_of (killAdb h w st) = st"
  by (simp add: killAdb_def Let_def split: option.splits)

lemma installAndroidPackages_installer: "installer_of (installAndroidPackages h w st) = st"
  by (simp add: installAndroidPackages_def Let_def split: option.splits)

lemma postInstallDefault_installer: "installer_of (postInstallDefault h w st) = st"
  by (simp add: postInstallDefault_def then_do_installer killAdb_installer
        installAndroidPackages_installer)

lemma postInstallDarwin_installer: "installer_of (postInstallDarwin h w st) = st"
  by (simp add: postInstallDarwin_def then_do_installer addExecutePermission_installer
        postInstallDefault_installer)

lemmas body_installer =
  downloadWin32_def downloadDarwin_def installWin32_def postInstallWin32_def
  downloadDefault_installer installDefault_installer installDarwin_installer
  updateVariablesWin32_installer updateVariablesDarwin_installer
  postInstallDefault_installer postInstallDarwin_installer


lemma body_home_frame:
  assumes "b = body_win32 h \<or> b = body_darwin h" and "s \<noteq> UpdateVariables"
  shows "androidHomeValue (installer_of (b s w st)) = androidHomeValue st"
  using assms by (cases s) (auto simp: body_installer)

lemma body_home_set:
  assumes "b = body_win32 h \<or> b = body_darwin h"
    and "outcome_of (b UpdateVariables w st) = Resolved"
  shows "androidHomeValue (installer_of (b UpdateVariables w st)) \<noteq> None"
proof -
  have "env_HOME h \<noteq> None" if "b = body_darwin h"
    using that assms(2) updateVariablesDarwin_thrown [of h w st] by auto
  then show ?thesis
    using assms(1) by (auto simp: body_installer)
qed

lemma dispatch_supported:
  assumes "os_platform h = ''win32'' \<or> os_platform h = ''darwin''"
  shows "\<exists>b. dispatch h = Some b \<and> (b = body_win32 h \<or> b = body_darwin h)"
  using assms by (auto simp: dispatch_def)

lemma run_stage_failed: "status r \<noteq> Resolved \<Longrightarrow> run_stage b ws r s = r"
  by (simp add: run_stage_def)

lemma run_stage_skipped: "satisfied (flags r) s \<Longrightarrow> run_stage b ws r s = r"
  by (simp add: run_stage_def)




lemma run_stage_home_frame:
  assumes "b = body_win32 h \<or> b = body_darwin h" and "s \<noteq> UpdateVariables"
  shows "androidHomeValue (this (run_stage b ws r s)) = androidHomeValue (this r)"
  using assms by (simp add: run_stage_def Let_def body_home_frame)

lemma some_nonexistent_probes:
  "\<forall>e\<in>set (snd (some_nonexistent P ex p dirs)).
     \<not> is_fs_write e \<and> \<not> is_network e \<and> \<not> is_spawn e \<and> \<not> is_exec e"
proof (induction dirs arbitrary: p)
  case Nil
  then show ?case by simp
next
  case (Cons dir dirs)
  then show ?case by (simp add: Let_def split_beta)
qed

lemma install_without_destination:
  assumes "b = body_win32 h \<or> b = body_darwin h" and "installDestination st = []"
  shows "outcome_of (b Install w st) = Rejected NeedInstallDestination
       \<and> filter is_fs_write (effects_of (b Install w st)) = []
       \<and> filter is_network (effects_of (b Install w st)) = []
       \<and> filter is_spawn (effects_of (b Install w st)) = []
       \<and> filter is_exec (effects_of (b Install w st)) = []"
proof -
  have d: "installDefault h w st =
           (Rejected NeedInstallDestination, st,
            [TelemetryAdd ''error.description''
               (TString ''NeedInstallDestination on installDefault'') False])"
    using assms(2) by (simp add: installDefault_def)
  have w: ?thesis if "b = body_win32 h"
    using that d by (simp add: installWin32_def)
  have m: ?thesis if "b = body_darwin h"
    using that d some_nonexistent_probes [of "node_path h" "on_existsSync w" "[]" "pathSegments h st"]
    by (simp add: installDarwin_def Let_def then_do_failed filter_empty_conv)
  show ?thesis using assms(1) w m by blast
qed

lemma installDefault_no_chown: "filter is_chown (effects_of (installDefault h w st)) = []"
  by (simp add: installDefault_def)

lemma some_nonexistent_no_chown: "filter is_chown (snd (some_nonexistent P ex p dirs)) = []"
  by (induction dirs arbitrary: p) (simp_all add: Let_def split_beta)

lemma installDefault_outcome:
  "outcome_of (installDefault h w st) = Resolved \<longleftrightarrow> installDestination st \<noteq> []"
  by (simp add: installDefault_def)






lemma killAdb_not_thrown:
  "\<forall>e. deferred c \<noteq> Thrown e \<Longrightarrow> deferred (foldl killAdb_on c evs) \<noteq> Thrown e"
proof (induction evs arbitrary: c)
  case Nil
  then show ?case by simp
next
  case (Cons ev evs)
  have "\<forall>e. deferred (killAdb_on c ev) \<noteq> Thrown e"
    using Cons.prems by (cases ev) (auto simp: settle_def)
  then show ?case using Cons.IH by simp
qed









subsection \<open>The examples\<close>


lemma example_resolved:
  "posix_resolve ''/Users/dev'' ''/opt/android/sdk'' = ''/opt/android/sdk''"
  by code_simp

lemma example_no_newline: "\<not> regex_test [CHR 0x0A] ''/opt/android/sdk''"
  by code_simp


lemma all_succeed_download: "on_downloadFile (all_succeed s) uri dest = Resolved"
  by (simp add: all_succeed_def world_of_def)

lemma sdk_installed_home: "androidHomeValue sdk_installed = Some ''/opt/sdk/android-sdk-macosx''"
  by (simp add: sdk_installed_def)

lemma world_of_spawn: "on_spawn (world_of existing events) command = events"
  by (simp add: world_of_def)

lemma example_tool_path:
  "posix_join [''/opt/sdk/android-sdk-macosx'', ''tools'', ''android'']
   = ''/opt/sdk/android-sdk-macosx/tools/android''"
  by code_simp

lemma example_uid: "parseInt10 (Some ''501'') = Some 501"
  by (simp add: parseInt10_def js_whitespace_def is_digit_def)

lemma example_gid: "parseInt10 (Some ''20'') = Some 20"
  by (simp add: parseInt10_def js_whitespace_def is_digit_def)

lemma example_profile_path:
  "posix_join [''/Users/dev'', ''.bash_profile''] = ''/Users/dev/.bash_profile''"
  by code_simp


lemma example_cache_path:
  "posix_join [''/Users/dev/.taco_home/third-party-installers'', ''androidSdk'', ''darwin'',
               ''24.0.2'', posix_basename ''http://x/sdk.zip'']
   = ''/Users/dev/.taco_home/third-party-installers/androidSdk/darwin/24.0.2/sdk.zip''"
  by code_simp

section \<open>The download stage\<close>

text \<open>
  Claim C9. The download body, shared by both platforms, computes the archive's path as
  \<^verbatim>\<open>path.join\<close> of the cache root, the name \<^verbatim>\<open>androidSdk\<close>, the host platform, the software
  version and the base name of the install source, stores it in \<open>installerArchive\<close> and
  asks the download primitive to fetch the source to that path. The path depends on
  nothing else: any run with the same version and source on the same host computes it
  again, whatever the world and whatever the rest of the installer's state.
\<close>

theorem download_cache_path:
  assumes "archive = path_join (node_path h)
                       [installerCache h, ''androidSdk'', os_platform h, softwareVersion st,
                        path_basename (node_path h) (installSource (installerInfo st))]"
  shows "installerArchive (installer_of (downloadDefault h w st)) = Some archive
       \<and> effects_of (downloadDefault h w st) =
           [DownloadFile (installSource (installerInfo st)) ''GET'' archive
              (bytes (installerInfo st)) (sha1 (installerInfo st))]
       \<and> outcome_of (downloadDefault h w st)
           = on_downloadFile w (installSource (installerInfo st)) archive
       \<and> (\<forall>w' st'. softwareVersion st' = softwareVersion st
              \<and> installSource (installerInfo st') = installSource (installerInfo st)
            \<longrightarrow> installerArchive (installer_of (downloadDefault h w' st')) = Some archive)"
  using assms by (simp add: downloadDefault_def Let_def)

text \<open>
  An instance on the Darwin host, and a second run on the installer the first run left.
\<close>

theorem download_cache_path_witness:
  "installerArchive (installer_of (downloadDefault darwin_host (world_of [] []) sdk_new))
     = Some ''/Users/dev/.taco_home/third-party-installers/androidSdk/darwin/24.0.2/sdk.zip''
   \<and> installerArchive (installer_of (downloadDefault darwin_host (world_of [] [])
        (installer_of (downloadDefault darwin_host (world_of [] []) sdk_new))))
     = Some ''/Users/dev/.taco_home/third-party-installers/androidSdk/darwin/24.0.2/sdk.zip''"
proof -
  let ?st1 = "installer_of (downloadDefault darwin_host (world_of [] []) sdk_new)"
  have same: "softwareVersion ?st1 = softwareVersion sdk_new
              \<and> installSource (installerInfo ?st1) = installSource (installerInfo sdk_new)"
    by (simp add: downloadDefault_def Let_def)
  have path: "path_join (node_path darwin_host)
                [installerCache darwin_host, ''androidSdk'', os_platform darwin_host,
                 softwareVersion sdk_new,
                 path_basename (node_path darwin_host) (installSource (installerInfo sdk_new))]
              = ''/Users/dev/.taco_home/third-party-installers/androidSdk/darwin/24.0.2/sdk.zip''"
    by (simp add: darwin_host_def posix_path_def sdk_new_def new_AndroidSdkInstaller_def
          sdk_info_def example_cache_path)
  show ?thesis
    using download_cache_path [OF refl, where h = darwin_host and st = sdk_new
            and w = "world_of [] []"] same path
    by simp
qed

section \<open>The install stage on Darwin\<close>

text \<open>
  Claim C10. The Darwin install body splits the resolved destination on the end-of-line
  sequence. When that sequence does not occur in the resolved path, the split gives the
  path itself as the only segment, so the loop probes one path, the destination:
  \<open>firstNonExistentDir\<close> stays undefined when the destination exists and is the whole
  resolved destination otherwise. The recursive change of ownership, made after a
  successful extraction, is therefore applied to the destination itself and to nothing
  above it.
\<close>

theorem darwin_chown_whole_destination:
  assumes "node_path h = posix_path"
    and "resolved = posix_resolve (process_cwd h) (installDestination st)"
    and "\<not> regex_test (os_EOL h) resolved"
  shows "pathSegments h st = [resolved]
       \<and> firstNonExistentDir h w st = (if on_existsSync w resolved then None else Some resolved)
       \<and> filter is_chown (effects_of (installDarwin h w st)) =
           (if installDestination st \<noteq> [] \<and> \<not> on_existsSync w resolved
            then [ChownSyncRecursive resolved
                    (parseInt10 (env_SUDO_UID h)) (parseInt10 (env_SUDO_GID h))]
            else [])"
proof -
  have segs: "pathSegments h st = [resolved]"
    using assms by (simp add: pathSegments_def posix_path_def js_split_absent)
  have joined: "path_join (node_path h) [[], resolved] = resolved"
    using assms(1,2) by (simp add: posix_path_def posix_join_resolve)
  have first: "firstNonExistentDir h w st
               = (if on_existsSync w resolved then None else Some resolved)"
    using segs joined by (simp add: firstNonExistentDir_def Let_def)
  have ne: "resolved \<noteq> []"
    using assms(2) by (simp add: posix_resolve_nonempty)
  have "filter is_chown (effects_of (installDarwin h w st)) =
           (if installDestination st \<noteq> [] \<and> \<not> on_existsSync w resolved
            then [ChownSyncRecursive resolved
                    (parseInt10 (env_SUDO_UID h)) (parseInt10 (env_SUDO_GID h))]
            else [])"
    using first ne
    by (simp add: installDarwin_def Let_def then_do_effects some_nonexistent_no_chown
          installDefault_no_chown installDefault_outcome installDefault_installer)
  with segs first show ?thesis by simp
qed

text \<open>
  Two instances with destination \<^verbatim>\<open>/opt/android/sdk\<close>. When only \<^verbatim>\<open>/opt\<close> exists, the
  directory found is the destination, not \<^verbatim>\<open>/opt/android\<close>; when the destination exists,
  none is found.
\<close>

theorem darwin_chown_whole_destination_witness:
  "firstNonExistentDir darwin_host (world_of [''/opt''] []) sdk_nested = Some ''/opt/android/sdk''
   \<and> filter is_chown (effects_of (installDarwin darwin_host (world_of [''/opt''] []) sdk_nested))
     = [ChownSyncRecursive ''/opt/android/sdk'' (Some 501) (Some 20)]
   \<and> firstNonExistentDir darwin_host (world_of [''/opt'', ''/opt/android/sdk''] []) sdk_nested
     = None"
proof -
  have module: "node_path darwin_host = posix_path"
    by (simp add: darwin_host_def)
  have resolved: "posix_resolve (process_cwd darwin_host) (installDestination sdk_nested)
                  = ''/opt/android/sdk''"
    by (simp add: darwin_host_def sdk_nested_def new_AndroidSdkInstaller_def example_resolved)
  have line: "\<not> regex_test (os_EOL darwin_host) ''/opt/android/sdk''"
    by (simp add: darwin_host_def example_no_newline)
  show ?thesis
    using darwin_chown_whole_destination [OF module resolved [symmetric] line,
            of "world_of [''/opt''] []"]
          darwin_chown_whole_destination [OF module resolved [symmetric] line,
            of "world_of [''/opt'', ''/opt/android/sdk''] []"]
    by (simp add: world_of_def sdk_nested_def new_AndroidSdkInstaller_def darwin_host_def
          example_uid example_gid)
qed

section \<open>The update-variables stage on Darwin\<close>

text \<open>
  Claim C7. The stage runs with \<^verbatim>\<open>HOME\<close> set and under the elevation context:
  \<^verbatim>\<open>SUDO_UID\<close> and \<^verbatim>\<open>SUDO_GID\<close> parse to ids that \<^verbatim>\<open>fs.chownSync\<close> accepts. The Darwin
  body then runs one shell command: an \<^verbatim>\<open>echo\<close> of the export block, appended (\<^verbatim>\<open>>>\<close>) to
  \<^verbatim>\<open>.bash_profile\<close> in the home directory. The block exports \<^verbatim>\<open>ANDROID_HOME\<close> and extends
  \<^verbatim>\<open>PATH\<close> through references to the variable. The ownership of the profile is changed
  exactly when the file did not exist before the command and the command succeeded, and
  then to the uid and gid parsed from the two variables; there is no other change of
  ownership. When the command fails the stage is rejected with its error, and otherwise
  it is resolved.
\<close>

theorem updateVariablesDarwin_profile:
  assumes "env_HOME h = Some dir"
    and "home = path_join (node_path h) [installDestination st, ''android-sdk-macosx'']"
    and "profile = path_join (node_path h) [dir, ''.bash_profile'']"
    and "block = [CHR 0x0A] @ ''# Android SDK'' @ [CHR 0x0A] @ ''export ANDROID_HOME='' @ home
                 @ [CHR 0x0A] @ ''export PATH='' @ [CHR 0x22]
                 @ ''$PATH:$ANDROID_HOME/tools/:$ANDROID_HOME/platform-tools/'' @ [CHR 0x22]"
    and "command = ''echo '' @ [CHR 0x27] @ block @ [CHR 0x27] @ '' >> '' @ [CHR 0x27] @ profile
                   @ [CHR 0x27]"
    and "valid_id (parseInt10 (env_SUDO_UID h))"
    and "valid_id (parseInt10 (env_SUDO_GID h))"
  shows "filter is_exec (effects_of (updateVariablesDarwin h w st)) = [Exec command]
       \<and> filter is_chown (effects_of (updateVariablesDarwin h w st)) =
           (if \<not> on_existsSync w profile \<and> on_exec w command = None
            then [ChownSync profile (parseInt10 (env_SUDO_UID h)) (parseInt10 (env_SUDO_GID h))]
            else [])
       \<and> outcome_of (updateVariablesDarwin h w st) =
           (case on_exec w command of None \<Rightarrow> Resolved | Some err \<Rightarrow> Rejected err)"
proof -
  have b: "block = appendToBashProfile home"
    using assms(4) by (simp add: appendToBashProfile_def ANDROID_HOME_NAME_def)
  have c: "command = updateCommand home profile"
    using assms(5) b by (simp add: updateCommand_def)
  show ?thesis
    using assms(1,2,3,6,7) c
    by (simp add: updateVariablesDarwin_def Let_def split: option.splits)
qed

text \<open>
  Three instances: the profile is missing and the command succeeds; the profile exists;
  the profile is missing and the command fails.
\<close>

theorem updateVariablesDarwin_profile_witness:
  "filter is_chown (effects_of (updateVariablesDarwin darwin_host (world_of [] []) sdk_new))
     = [ChownSync ''/Users/dev/.bash_profile'' (Some 501) (Some 20)]
   \<and> outcome_of (updateVariablesDarwin darwin_host (world_of [] []) sdk_new) = Resolved
   \<and> filter is_chown (effects_of (updateVariablesDarwin darwin_host
        (world_of [''/Users/dev/.bash_profile''] []) sdk_new)) = []
   \<and> filter is_chown (effects_of (updateVariablesDarwin darwin_host
        (failing_exec (world_of [] [])) sdk_new)) = []
   \<and> outcome_of (updateVariablesDarwin darwin_host (failing_exec (world_of [] [])) sdk_new)
     = Rejected (NodeError ''Command failed'')"
  using updateVariablesDarwin_profile [where h = darwin_host and dir = "''/Users/dev''"
          and st = sdk_new and w = "world_of [] []", OF _ refl refl refl refl]
        updateVariablesDarwin_profile [where h = darwin_host and dir = "''/Users/dev''"
          and st = sdk_new and w = "world_of [''/Users/dev/.bash_profile''] []",
          OF _ refl refl refl refl]
        updateVariablesDarwin_profile [where h = darwin_host and dir = "''/Users/dev''"
          and st = sdk_new and w = "failing_exec (world_of [] [])", OF _ refl refl refl refl]
  by (simp add: darwin_host_def posix_path_def sdk_new_def new_AndroidSdkInstaller_def
        world_of_def failing_exec_def example_profile_path example_uid example_gid
        valid_id_def)

text \<open>
  Outside the elevation context the ids are NaN. When the profile did not exist and the
  command succeeded, \<^verbatim>\<open>fs.chownSync\<close> throws in the callback: no owner is changed and the
  promise of the stage is never settled.
\<close>

lemma updateVariablesDarwin_without_ids:
  assumes "env_HOME h = Some dir"
    and "env_SUDO_UID h = None \<or> env_SUDO_GID h = None"
    and "profile = path_join (node_path h) [dir, ''.bash_profile'']"
    and "\<not> on_existsSync w profile"
    and "on_exec w (updateCommand
           (path_join (node_path h) [installDestination st, ''android-sdk-macosx'']) profile)
         = None"
  shows "outcome_of (updateVariablesDarwin h w st) = Pending
       \<and> filter is_chown (effects_of (updateVariablesDarwin h w st)) = []"
proof -
  have "parseInt10 None = None"
    by (simp add: parseInt10_def js_whitespace_def is_digit_def)
  then have "\<not> (valid_id (parseInt10 (env_SUDO_UID h)) \<and> valid_id (parseInt10 (env_SUDO_GID h)))"
    using assms(2) by (auto simp: valid_id_def)
  then show ?thesis
    using assms(1,3,4,5) by (simp add: updateVariablesDarwin_def Let_def)
qed

section \<open>The package manager's child process\<close>

text \<open>
  Claim C2. In the package-installation step, when the text captured from the child's
  stderr is not empty at the moment the child exits, the step is rejected, whatever the
  exit code (zero included), and the error carries the captured text. The events before
  the exit are \<open>pre\<close>. The deferred is settled once, so when the child had emitted an
  error event before it exited, the step has already been rejected with that error. The
  step having failed, \<open>postInstallDefault\<close> does not go on to \<open>killAdb\<close>.
\<close>

theorem stderr_at_exit_rejects:
  assumes "androidHomeValue st = Some home"
    and "on_spawn w (packagesCommand h home) = pre @ ExitEvent code # post"
    and "\<forall>e\<in>set pre. \<not> is_exit e"
    and "stderr_text pre \<noteq> []"
  shows "outcome_of (installAndroidPackages h w st) =
           Rejected (case first_error pre of
                       None \<Rightarrow> ErrorText (stderr_text pre)
                     | Some err \<Rightarrow> err)
         \<and> postInstallDefault h w st = installAndroidPackages h w st"
proof -
  have out: "outcome_of (installAndroidPackages h w st) =
           Rejected (case first_error pre of
                       None \<Rightarrow> ErrorText (stderr_text pre)
                     | Some err \<Rightarrow> err)"
    using installAndroidPackages_at_exit [OF assms(1,2,3)] assms(4)
    by (simp split: option.splits)
  then have "outcome_of (installAndroidPackages h w st) \<noteq> Resolved"
    by simp
  then have "postInstallDefault h w st = installAndroidPackages h w st"
    by (simp add: postInstallDefault_def then_do_failed)
  with out show ?thesis by simp
qed

text \<open>
  An instance: the child writes two chunks to stderr and exits with code 0.
\<close>

theorem stderr_at_exit_rejects_witness:
  "outcome_of (installAndroidPackages darwin_host
       (world_of [] [StdoutData ''Installing'', StderrData ''Warning: '', StderrData ''disk'',
                     ExitEvent 0])
       sdk_installed) = Rejected (ErrorText ''Warning: disk'')
   \<and> postInstallDefault darwin_host
       (world_of [] [StdoutData ''Installing'', StderrData ''Warning: '', StderrData ''disk'',
                     ExitEvent 0])
       sdk_installed
     = installAndroidPackages darwin_host
       (world_of [] [StdoutData ''Installing'', StderrData ''Warning: '', StderrData ''disk'',
                     ExitEvent 0])
       sdk_installed"
  using stderr_at_exit_rejects [OF sdk_installed_home, of
      "world_of [] [StdoutData ''Installing'', StderrData ''Warning: '', StderrData ''disk'',
                     ExitEvent 0]"
      darwin_host
      "[StdoutData ''Installing'', StderrData ''Warning: '', StderrData ''disk'']" 0 "[]"]
  by (simp add: world_of_spawn)

text \<open>
  Claim C3, as amended. The exit listener of the package-installation step looks at the
  captured stderr text only; the exit code goes to the telemetry and decides nothing. When
  the child exits, no error event having come before, the step is rejected exactly when
  the captured text is not empty, with an error carrying that text, and is resolved
  otherwise, for every exit code.
\<close>

theorem exit_code_not_consulted:
  assumes "androidHomeValue st = Some home"
    and "on_spawn w (packagesCommand h home) = pre @ ExitEvent code # post"
    and "\<forall>e\<in>set pre. \<not> is_exit e \<and> \<not> is_error e"
  shows "outcome_of (installAndroidPackages h w st) =
           (if stderr_text pre = [] then Resolved else Rejected (ErrorText (stderr_text pre)))"
proof -
  have "first_error pre = None"
    using assms(3)
  proof (induction pre)
    case Nil
    then show ?case by simp
  next
    case (Cons e pre)
    then show ?case by (cases e) simp_all
  qed
  moreover have "\<forall>e\<in>set pre. \<not> is_exit e"
    using assms(3) by simp
  ultimately show ?thesis
    using installAndroidPackages_at_exit [OF assms(1,2)] by simp
qed

text \<open>
  Two instances with exit code 3: with nothing on stderr the step is resolved, with text
  on stderr it is rejected.
\<close>

theorem exit_code_not_consulted_witness:
  "outcome_of (installAndroidPackages darwin_host
       (world_of [] [StdoutData ''Fetching'', ExitEvent 3]) sdk_installed) = Resolved
   \<and> outcome_of (installAndroidPackages darwin_host
       (world_of [] [StderrData ''failed'', ExitEvent 3]) sdk_installed)
     = Rejected (ErrorText ''failed'')"
  using exit_code_not_consulted [OF sdk_installed_home, of
          "world_of [] [StdoutData ''Fetching'', ExitEvent 3]" darwin_host
          "[StdoutData ''Fetching'']" 3 "[]"]
        exit_code_not_consulted [OF sdk_installed_home, of
          "world_of [] [StderrData ''failed'', ExitEvent 3]" darwin_host
          "[StderrData ''failed'']" 3 "[]"]
  by (simp add: world_of_spawn)

text \<open>
  The claim as stated fails: the child exits with code 1, having written nothing to
  stderr, and the step is resolved.
\<close>

theorem nonzero_exit_counterexample:
  "outcome_of (installAndroidPackages darwin_host (world_of [] [ExitEvent 1]) sdk_installed)
   = Resolved"
  by (simp add: installAndroidPackages_def sdk_installed_home world_of_spawn settle_def)

text \<open>
  Claim C4. The stdout listener answers every chunk that holds the prompt: it calls
  \<^verbatim>\<open>cp.stdin.write\<close> and \<^verbatim>\<open>cp.stdin.end\<close> each time, and keeps no record that it has
  answered. With two chunks holding the prompt, the engine writes and closes twice; the
  second write comes after the stream has been ended.
\<close>

theorem prompt_answered_per_chunk:
  "filter is_stdin (effects_of (installAndroidPackages darwin_host
       (world_of [] [StdoutData ''Accept license A [y/n]: '',
                     StdoutData ''Accept license B [y/n]: '', ExitEvent 0])
       sdk_installed))
   = [StdinWrite [CHR ''y'', CHR 0x0A], StdinEnd, StdinWrite [CHR ''y'', CHR 0x0A], StdinEnd]"
  by (simp add: installAndroidPackages_def sdk_installed_home world_of_spawn darwin_host_def)

text \<open>
  Claim C8. The package-installation step spawns one child. On Darwin the options carry
  the uid and gid parsed from \<^verbatim>\<open>SUDO_UID\<close> and \<^verbatim>\<open>SUDO_GID\<close>; on every other platform no
  options are passed. The step spawns the child once \<open>androidHomeValue\<close> is set, the
  command's path being built from it.
\<close>

theorem spawn_identity:
  assumes "androidHomeValue st = Some home"
  shows "filter is_spawn (effects_of (installAndroidPackages h w st)) =
           [Spawn (packagesCommand h home) packagesArgs
              (if os_platform h = ''darwin''
               then Some (parseInt10 (env_SUDO_UID h), parseInt10 (env_SUDO_GID h))
               else None)]"
  using assms by (simp add: installAndroidPackages_def Let_def packages_spawns spawnOptions_def)

text \<open>Two instances: a Darwin host and a Linux host, the environment being the same.\<close>

theorem spawn_identity_witness:
  "filter is_spawn (effects_of (installAndroidPackages darwin_host (world_of [] [ExitEvent 0])
       sdk_installed))
   = [Spawn ''/opt/sdk/android-sdk-macosx/tools/android'' packagesArgs (Some (Some 501, Some 20))]
   \<and> filter is_spawn (effects_of (installAndroidPackages linux_host (world_of [] [ExitEvent 0])
       sdk_installed))
   = [Spawn ''/opt/sdk/android-sdk-macosx/tools/android'' packagesArgs None]"
  using spawn_identity [OF sdk_installed_home, of darwin_host "world_of [] [ExitEvent 0]"]
        spawn_identity [OF sdk_installed_home, of linux_host "world_of [] [ExitEvent 0]"]
  by (simp add: darwin_host_def linux_host_def packagesCommand_def androidCommand_def
        posix_path_def example_tool_path example_uid example_gid)

section \<open>The daemon-kill step\<close>

text \<open>
  Claim C6, as amended. \<open>killAdb\<close> fails only when the kill-server child emits an error
  event before it exits: the promise is then rejected with that error, and the telemetry
  is given the description of this step, which the package-installation step never
  gives. When the child exits, no error event having come before, \<open>killAdb\<close> is resolved
  for every exit code: the exit listener does not read the code.
\<close>

theorem killAdb_outcome:
  assumes "androidHomeValue st = Some home"
    and "\<forall>e\<in>set pre. \<not> is_exit e \<and> \<not> is_error e"
  shows "(on_spawn w (path_join (node_path h) [home, ''platform-tools'', ''adb''])
            = pre @ ExitEvent code # post
          \<longrightarrow> outcome_of (killAdb h w st) = Resolved)
       \<and> (on_spawn w (path_join (node_path h) [home, ''platform-tools'', ''adb''])
            = pre @ ErrorEvent err # post
          \<longrightarrow> outcome_of (killAdb h w st) = Rejected err
            \<and> TelemetryAdd ''error.description'' (TString ''ErrorOnKillingAdb in killAdb'') False
              \<in> set (effects_of (killAdb h w st)))
       \<and> TelemetryAdd ''error.description'' (TString ''ErrorOnKillingAdb in killAdb'') False
           \<notin> set (effects_of (installAndroidPackages h w' st'))"
proof (intro conjI impI)
  assume ev: "on_spawn w (path_join (node_path h) [home, ''platform-tools'', ''adb''])
            = pre @ ExitEvent code # post"
  show "outcome_of (killAdb h w st) = Resolved"
    using assms ev
    by (simp add: killAdb_def killAdb_quiet killAdb_settled settle_Pending)
next
  assume ev: "on_spawn w (path_join (node_path h) [home, ''platform-tools'', ''adb''])
            = pre @ ErrorEvent err # post"
  show "outcome_of (killAdb h w st) = Rejected err"
    using assms ev
    by (simp add: killAdb_def killAdb_quiet killAdb_settled settle_Pending)
  let ?c = "\<lparr>errorOutput = [], deferred = Pending,
              calls = [Spawn (path_join (node_path h) [home, ''platform-tools'', ''adb''])
                         [''kill-server''] None]\<rparr>"
  have "TelemetryAdd ''error.description'' (TString ''ErrorOnKillingAdb in killAdb'') False
        \<in> set (calls (killAdb_on ?c (ErrorEvent err)))"
    by simp
  then have "TelemetryAdd ''error.description'' (TString ''ErrorOnKillingAdb in killAdb'') False
        \<in> set (calls (foldl killAdb_on (killAdb_on ?c (ErrorEvent err)) post))"
    using killAdb_calls_grow by blast
  then show "TelemetryAdd ''error.description'' (TString ''ErrorOnKillingAdb in killAdb'') False
        \<in> set (effects_of (killAdb h w st))"
    using assms ev by (simp add: killAdb_def killAdb_quiet Let_def)
next
  show "TelemetryAdd ''error.description'' (TString ''ErrorOnKillingAdb in killAdb'') False
           \<notin> set (effects_of (installAndroidPackages h w' st'))"
    by (cases "androidHomeValue st'") (simp_all add: installAndroidPackages_def Let_def packages_no_kill_description)
qed

text \<open>
  Two instances: a child that prints a line and exits with code 2, and a child that
  cannot be spawned.
\<close>

theorem killAdb_outcome_witness:
  "outcome_of (killAdb darwin_host (world_of [] [StdoutData ''* daemon not running'', ExitEvent 2])
     sdk_installed) = Resolved
   \<and> outcome_of (killAdb darwin_host (world_of [] [ErrorEvent (NodeError ''spawn ENOENT'')])
     sdk_installed) = Rejected (NodeError ''spawn ENOENT'')"
  using killAdb_outcome [where st = sdk_installed and home = "''/opt/sdk/android-sdk-macosx''"
          and pre = "[StdoutData ''* daemon not running'']" and h = darwin_host
          and w = "world_of [] [StdoutData ''* daemon not running'', ExitEvent 2]"
          and code = 2 and post = "[]"]
        killAdb_outcome [where st = sdk_installed and home = "''/opt/sdk/android-sdk-macosx''"
          and pre = "[]" and h = darwin_host
          and w = "world_of [] [ErrorEvent (NodeError ''spawn ENOENT'')]"
          and err = "NodeError ''spawn ENOENT''" and post = "[]"]
  by (simp add: sdk_installed_home world_of_spawn)

text \<open>
  The claim as stated fails: the kill-server child exits with code 1, and \<open>killAdb\<close> is
  resolved.
\<close>

theorem killAdb_exit_code_counterexample:
  "outcome_of (killAdb darwin_host (world_of [] [ExitEvent 1]) sdk_installed) = Resolved"
  by (simp add: killAdb_def sdk_installed_home world_of_spawn settle_def)

section \<open>The pipeline\<close>






text \<open>
  Claim C5, as amended. The check of the destination stands in the install body. On a
  supported platform, when the destination is the empty string, the install flag is not
  satisfied, and the download stage was skipped or succeeded, the run fails in the install
  stage with the error NeedInstallDestination: no directory is created, nothing is
  extracted, no ownership is changed, no command is run and no child is spawned, and no
  later stage runs. The download request has been issued by then, unless the download
  flag was already satisfied.
\<close>

theorem empty_destination_fails_at_install:
  assumes "os_platform h = ''win32'' \<or> os_platform h = ''darwin''"
    and "\<not> installed f"
    and "archive = path_join (node_path h)
                     [installerCache h, ''androidSdk'', os_platform h, version,
                      path_basename (node_path h) (installSource info)]"
    and "downloaded f \<or> on_downloadFile (ws Download) (installSource info) archive = Resolved"
    and "r = run h ws f info version []"
  shows "status r = Rejected NeedInstallDestination
       \<and> filter is_network (trace r) =
           (if downloaded f then []
            else [DownloadFile (installSource info) ''GET'' archive (bytes info) (sha1 info)])
       \<and> filter is_fs_write (trace r) = []
       \<and> filter is_spawn (trace r) = []
       \<and> filter is_exec (trace r) = []
       \<and> run_stages h ws f (new_AndroidSdkInstaller info version []) [Download, Install] = r"
proof -
  obtain b where b: "dispatch h = Some b" "b = body_win32 h \<or> b = body_darwin h"
    using dispatch_supported [OF assms(1)] by blast
  let ?obj = "new_AndroidSdkInstaller info version []"
  let ?r0 = "\<lparr>status = Resolved, flags = f, this = ?obj, trace = []\<rparr>"
  let ?r1 = "run_stage b ws ?r0 Download"
  let ?r2 = "run_stage b ws ?r1 Install"
  have dl: "b Download w st = downloadDefault h w st" for w st
    using b(2) by (auto simp: downloadWin32_def downloadDarwin_def)
  have r1: "status ?r1 = Resolved \<and> installDestination (this ?r1) = []
            \<and> \<not> satisfied (flags ?r1) Install
            \<and> trace ?r1 = (if downloaded f then []
                 else [DownloadFile (installSource info) ''GET'' archive (bytes info) (sha1 info)])"
  proof (cases "downloaded f")
    case True
    then have "?r1 = ?r0" by (simp add: run_stage_skipped)
    then show ?thesis using True assms(2) by (simp add: new_AndroidSdkInstaller_def)
  next
    case False
    then have ok: "on_downloadFile (ws Download) (installSource info) archive = Resolved"
      using assms(4) by simp
    have "downloadDefault h (ws Download) ?obj =
            (Resolved, ?obj\<lparr>installerArchive := Some archive\<rparr>,
             [DownloadFile (installSource info) ''GET'' archive (bytes info) (sha1 info)])"
      using ok assms(3) by (simp add: downloadDefault_def Let_def new_AndroidSdkInstaller_def)
    then show ?thesis
      using False assms(2) dl
      by (simp add: run_stage_def Let_def new_AndroidSdkInstaller_def)
  qed
  have inst: "outcome_of (b Install (ws Install) (this ?r1)) = Rejected NeedInstallDestination
       \<and> filter is_fs_write (effects_of (b Install (ws Install) (this ?r1))) = []
       \<and> filter is_network (effects_of (b Install (ws Install) (this ?r1))) = []
       \<and> filter is_spawn (effects_of (b Install (ws Install) (this ?r1))) = []
       \<and> filter is_exec (effects_of (b Install (ws Install) (this ?r1))) = []"
    using b(2) r1 by (intro install_without_destination) simp_all
  have r2: "status ?r2 = Rejected NeedInstallDestination
            \<and> trace ?r2 = trace ?r1 @ effects_of (b Install (ws Install) (this ?r1))"
    using r1 inst by (subst run_stage_def, subst (2) run_stage_def) (simp add: Let_def)
  have tail: "run_stage b ws (run_stage b ws ?r2 UpdateVariables) PostInstall = ?r2"
    using r2 by (simp add: run_stage_failed)
  have whole: "r = ?r2"
    using assms(5) b(1) tail by (simp add: run_def run_stages_def)
  have short: "run_stages h ws f ?obj [Download, Install] = ?r2"
    using b(1) by (simp add: run_stages_def)
  have tr: "filter p (trace ?r2) = filter p (trace ?r1) @ filter p (effects_of (b Install (ws Install) (this ?r1)))" for p
    using r2 by simp
  show ?thesis
    unfolding whole short
    using r1 r2 inst by (simp add: tr)
qed


text \<open>
  Two instances on the Darwin host: no flag satisfied, and the download flag satisfied.
\<close>

theorem empty_destination_witness:
  "status (run darwin_host all_succeed no_flags sdk_info ''24.0.2'' [])
     = Rejected NeedInstallDestination
   \<and> filter is_fs_write (trace (run darwin_host all_succeed no_flags sdk_info ''24.0.2'' [])) = []
   \<and> status (run darwin_host all_succeed (no_flags\<lparr>downloaded := True\<rparr>) sdk_info ''24.0.2'' [])
     = Rejected NeedInstallDestination
   \<and> filter is_network
         (trace (run darwin_host all_succeed (no_flags\<lparr>downloaded := True\<rparr>) sdk_info ''24.0.2'' []))
     = []"
proof -
  have platform: "os_platform darwin_host = ''win32'' \<or> os_platform darwin_host = ''darwin''"
    by (simp add: darwin_host_def)
  have fresh: "\<not> installed no_flags" "\<not> installed (no_flags\<lparr>downloaded := True\<rparr>)"
    by (simp_all add: no_flags_def)
  have fetched: "downloaded no_flags \<or> on_downloadFile (all_succeed Download) uri dest = Resolved"
    for uri dest
    by (simp add: all_succeed_download)
  have cached: "downloaded (no_flags\<lparr>downloaded := True\<rparr>)
                \<or> on_downloadFile (all_succeed Download) uri dest = Resolved" for uri dest
    by simp
  show ?thesis
    using empty_destination_fails_at_install [where h = darwin_host and ws = all_succeed
            and f = no_flags and info = sdk_info and version = "''24.0.2''",
            OF platform fresh(1) refl fetched refl]
          empty_destination_fails_at_install [where h = darwin_host and ws = all_succeed
            and f = "no_flags\<lparr>downloaded := True\<rparr>" and info = sdk_info
            and version = "''24.0.2''", OF platform fresh(2) refl cached refl]
    by simp
qed

text \<open>
  The claim as stated fails: with no flag satisfied and an empty destination, the run
  fails with NeedInstallDestination after the download request has been issued, and on
  Darwin after the install body has looked at the file system.
\<close>

theorem empty_destination_counterexample:
  "status (run darwin_host all_succeed no_flags sdk_info ''24.0.2'' [])
     = Rejected NeedInstallDestination
   \<and> filter is_network (trace (run darwin_host all_succeed no_flags sdk_info ''24.0.2'' []))
     = [DownloadFile ''http://x/sdk.zip'' ''GET''
          ''/Users/dev/.taco_home/third-party-installers/androidSdk/darwin/24.0.2/sdk.zip''
          1024 ''abc'']
   \<and> filter is_fs_read (trace (run darwin_host all_succeed no_flags sdk_info ''24.0.2'' []))
     = [ExistsSync ''/Users/dev'']"
  by code_simp

end
